theory Spec2Isabelle
  imports Main
begin

section \<open>Dimension range descriptors of the GeoMet quick demo\<close>

text \<open>
  The notebook \<^verbatim>\<open>geomet-auth-wcs-quick-demo.ipynb\<close> reads the two time axes of a layer
  with the statements
  \<^verbatim>\<open>
  oldest_fcast, newest_fcast, issue_interval =
      wms_auth[layer_name].dimensions['reference_time']['values'][0].split('/')
  first_datetime, last_datetime, datetime_interval =
      wms_auth[layer_name].dimensions['time']['values'][0].split('/')
  \<close>
  Each statement looks a dimension up, takes entry 0 of its \<^verbatim>\<open>values\<close> list, splits that
  string at every \<^verbatim>\<open>/\<close> and unpacks the resulting list into three names. The
  specification calls the last two steps \<^verbatim>\<open>parse\<close>.
\<close>

subsection \<open>Exceptions\<close>

text \<open>
  The exceptions the statement can raise by itself: a missing dimension name
  (\<^verbatim>\<open>KeyError\<close>), an empty \<^verbatim>\<open>values\<close> list (\<^verbatim>\<open>IndexError\<close>), and a list that does
  not have exactly three elements at the unpacking (\<^verbatim>\<open>ValueError\<close>, "not enough values to
  unpack" or "too many values to unpack"). The last one is the condition the
  specification names MalformedDescriptor.
\<close>

datatype py_error = KeyError | IndexError | ValueError

subsection \<open>\<^verbatim>\<open>str.split\<close> with a one-character separator\<close>

text \<open>
  \<^verbatim>\<open>s.split(sep)\<close> without \<^verbatim>\<open>maxsplit\<close>: find the next occurrence of the separator, emit
  the slice before it and go on behind it; when no separator is left, emit the remainder
  (which may be empty). A string is a list of characters; the function is polymorphic in
  the character type, so it reads the same on code points and on bytes.
\<close>

function str_split :: "'a \<Rightarrow> 'a list \<Rightarrow> 'a list list" where
  "str_split sep s =
     (case dropWhile (\<lambda>c. c \<noteq> sep) s of
        [] \<Rightarrow> [s]
      | _ # rest \<Rightarrow> takeWhile (\<lambda>c. c \<noteq> sep) s # str_split sep rest)"
  by pat_completeness auto
termination
proof (relation "measure (\<lambda>(sep, s). length s)")
  show "wf (measure (\<lambda>(sep, s). length s))"
    by simp
next
  fix sep :: 'a and s :: "'a list" and x rest
  assume "dropWhile (\<lambda>c. c \<noteq> sep) s = x # rest"
  then have "Suc (length rest) = length (dropWhile (\<lambda>c. c \<noteq> sep) s)"
    by simp
  also have "\<dots> \<le> length s"
    by (rule length_dropWhile_le)
  finally show "((sep, rest), (sep, s)) \<in> measure (\<lambda>(sep, s). length s)"
    by simp
qed

declare str_split.simps [simp del]

subsection \<open>Unpacking into three targets\<close>

text \<open>
  \<^verbatim>\<open>x, y, z = xs\<close> checks the length of the sequence before it stores anything: with
  exactly three elements it yields them in order, otherwise it raises \<^verbatim>\<open>ValueError\<close>.
\<close>

fun unpack3 :: "'a list \<Rightarrow> py_error + ('a \<times> 'a \<times> 'a)" where
  "unpack3 [x, y, z] = Inr (x, y, z)"
| "unpack3 _ = Inl ValueError"

subsection \<open>The descriptor parser\<close>

text \<open>The expression \<^verbatim>\<open>descriptor.split('/')\<close> unpacked into three names.\<close>

definition parse :: "string \<Rightarrow> py_error + (string \<times> string \<times> string)" where
  "parse descriptor = unpack3 (str_split CHR ''/'' descriptor)"

subsection \<open>The dimensions of a layer\<close>

text \<open>
  \<^verbatim>\<open>wms_auth[layer_name].dimensions\<close> is a dictionary from the dimension's name to a
  dictionary of its attributes, as the notebook prints it:
  \<^verbatim>\<open>
  {'time': {'units': 'ISO8601', 'default': '2022-06-21T12:00:00Z', 'nearestValue': '0',
            'values': ['2022-06-21T01:00:00Z/2022-06-27T00:00:00Z/PT1H']},
   'reference_time': {'units': 'ISO8601', 'default': '2022-06-21T00:00:00Z',
            'multipleValues': '1', 'nearestValue': '0',
            'values': ['2022-06-19T12:00:00Z/2022-06-21T00:00:00Z/PT12H']}}
  \<close>
  The attribute dictionary is built by the OGC client library, which always stores a list
  of strings under \<^verbatim>\<open>values\<close>; the attributes that may be absent are optional fields.
\<close>

record dimension =
  units :: string
  default_value :: string
  multipleValues :: "string option"
  nearestValue :: "string option"
  values' :: "string list"

type_synonym dimensions = "string \<rightharpoonup> dimension"

text \<open>
  \<^verbatim>\<open>dimensions[name]['values'][0].split('/')\<close> unpacked into three names: the lookup of
  the name raises \<^verbatim>\<open>KeyError\<close> when the layer has no such dimension, index 0 raises
  \<^verbatim>\<open>IndexError\<close> on an empty list, and no entry but the first is read.
\<close>

definition dimension_range ::
  "dimensions \<Rightarrow> string \<Rightarrow> py_error + (string \<times> string \<times> string)" where
  "dimension_range dims name =
     (case dims name of
        None \<Rightarrow> Inl KeyError
      | Some d \<Rightarrow>
          (case values' d of
             [] \<Rightarrow> Inl IndexError
           | v # _ \<Rightarrow> parse v))"

subsection \<open>The assignment statements\<close>

text \<open>
  The notebook's namespace, restricted to its string variables. The statement evaluates
  its right-hand side first; an exception there leaves the namespace as it was. Otherwise
  the three targets are stored from left to right.
\<close>

type_synonym namespace = "string \<rightharpoonup> string"

definition assign_range ::
  "string \<times> string \<times> string \<Rightarrow> string \<Rightarrow> dimensions \<Rightarrow> namespace
     \<Rightarrow> py_error option \<times> namespace" where
  "assign_range targets name dims ns =
     (case dimension_range dims name of
        Inl e \<Rightarrow> (Some e, ns)
      | Inr (a, b, c) \<Rightarrow>
          (case targets of (x, y, z) \<Rightarrow> (None, ns(x \<mapsto> a, y \<mapsto> b, z \<mapsto> c))))"

definition reference_time_cell :: "dimensions \<Rightarrow> namespace \<Rightarrow> py_error option \<times> namespace" where
  "reference_time_cell =
     assign_range (''oldest_fcast'', ''newest_fcast'', ''issue_interval'') ''reference_time''"

definition time_cell :: "dimensions \<Rightarrow> namespace \<Rightarrow> py_error option \<times> namespace" where
  "time_cell =
     assign_range (''first_datetime'', ''last_datetime'', ''datetime_interval'') ''time''"

subsection \<open>Basic facts about splitting\<close>

lemma str_split_no_sep: "sep \<notin> set s \<Longrightarrow> str_split sep s = [s]"
proof -
  assume "sep \<notin> set s"
  then have d: "dropWhile (\<lambda>c. c \<noteq> sep) s = []"
    by auto
  show ?thesis
    by (subst str_split.simps) (simp only: d list.case)
qed

lemma str_split_at_sep:
  "sep \<notin> set a \<Longrightarrow> str_split sep (a @ sep # r) = a # str_split sep r"
proof -
  assume a: "sep \<notin> set a"
  then have p: "\<And>c. c \<in> set a \<Longrightarrow> c \<noteq> sep"
    by auto
  have d: "dropWhile (\<lambda>c. c \<noteq> sep) (a @ sep # r) = sep # r"
    using p by (simp add: dropWhile_append3)
  have t: "takeWhile (\<lambda>c. c \<noteq> sep) (a @ sep # r) = a"
    using p by simp
  show ?thesis
    by (subst str_split.simps) (simp only: d t list.case)
qed

lemma length_str_split: "length (str_split sep s) = Suc (count_list s sep)"
proof (induction "count_list s sep" arbitrary: s)
  case 0
  then have "sep \<notin> set s"
    by (simp add: count_list_0_iff)
  with 0 show ?case
    by (simp add: str_split_no_sep)
next
  case (Suc n)
  from Suc.hyps(2) obtain pref rest where
    s: "s = pref @ sep # rest" and pref: "sep \<notin> set pref" and rest: "count_list rest sep = n"
    using count_list_Suc_split_first [of s sep n] by auto
  from rest have "length (str_split sep rest) = Suc (count_list rest sep)"
    using Suc.hyps(1) [of rest] by simp
  with s pref show ?case
    by (simp add: str_split_at_sep)
qed

lemma str_split_three:
  assumes "str_split sep s = [a, b, c]"
  shows "s = a @ sep # b @ sep # c \<and> sep \<notin> set a \<and> sep \<notin> set b \<and> sep \<notin> set c"
proof -
  from assms have "count_list s sep = Suc (Suc 0)"
    using length_str_split [of sep s] by simp
  then obtain p1 r1 where
    s: "s = p1 @ sep # r1" and p1: "sep \<notin> set p1" and r1: "count_list r1 sep = Suc 0"
    using count_list_Suc_split_first [of s sep "Suc 0"] by auto
  from r1 obtain p2 r2 where
    r: "r1 = p2 @ sep # r2" and p2: "sep \<notin> set p2" and r2: "count_list r2 sep = 0"
    using count_list_Suc_split_first [of r1 sep 0] by auto
  from r2 have r2': "sep \<notin> set r2"
    by (simp add: count_list_0_iff)
  have "str_split sep s = [p1, p2, r2]"
    using p1 p2 r2' by (simp add: s r str_split_at_sep str_split_no_sep)
  with assms have "a = p1" "b = p2" "c = r2"
    by simp_all
  with s r p1 p2 r2' show ?thesis
    by simp
qed

lemma unpack3_Inr_iff: "unpack3 xs = Inr (a, b, c) \<longleftrightarrow> xs = [a, b, c]"
  by (cases xs rule: unpack3.cases) auto

lemma unpack3_length: "length xs = 3 \<Longrightarrow> \<exists>t. unpack3 xs = Inr t"
  by (cases xs rule: unpack3.cases) auto

lemma unpack3_ValueError: "length xs \<noteq> 3 \<Longrightarrow> unpack3 xs = Inl ValueError"
  by (cases xs rule: unpack3.cases) auto

lemma parse_fields:
  assumes "CHR ''/'' \<notin> set a" and "CHR ''/'' \<notin> set b" and "CHR ''/'' \<notin> set c"
  shows "parse (a @ ''/'' @ b @ ''/'' @ c) = Inr (a, b, c)"
  using assms by (simp add: parse_def str_split_at_sep str_split_no_sep)

lemma parse_count_neq: "count_list s CHR ''/'' \<noteq> 2 \<Longrightarrow> parse s = Inl ValueError"
  by (simp add: parse_def unpack3_ValueError length_str_split)

lemma parse_count_eq: "count_list s CHR ''/'' = 2 \<Longrightarrow> \<exists>t. parse s = Inr t"
  unfolding parse_def by (rule unpack3_length) (simp add: length_str_split)

lemma parse_InrD:
  assumes "parse s = Inr (a, b, c)"
  shows "s = a @ ''/'' @ b @ ''/'' @ c"
    and "CHR ''/'' \<notin> set a" and "CHR ''/'' \<notin> set b" and "CHR ''/'' \<notin> set c"
  using assms str_split_three [of "CHR ''/''" s a b c]
  by (simp_all add: parse_def unpack3_Inr_iff)

lemma assign_range_Inl:
  "dimension_range dims name = Inl e \<Longrightarrow> assign_range targets name dims ns = (Some e, ns)"
  by (simp add: assign_range_def)

lemma dimension_range_Cons:
  "dims name = Some d \<Longrightarrow> values' d = v # rest \<Longrightarrow> dimension_range dims name = parse v"
  by (simp add: dimension_range_def)

section \<open>The properties of the specification\<close>

subsection \<open>Well-formed descriptors\<close>

text \<open>
  C1. For every descriptor \<^verbatim>\<open><a>/<b>/<c>\<close> whose three fields contain no \<^verbatim>\<open>/\<close>, parse
  returns the triple of the three fields, in their order and unchanged.
\<close>

theorem parse_well_formed:
  "CHR ''/'' \<notin> set a \<Longrightarrow> CHR ''/'' \<notin> set b \<Longrightarrow> CHR ''/'' \<notin> set c \<Longrightarrow>
   parse (a @ ''/'' @ b @ ''/'' @ c) = Inr (a, b, c)"
  by (rule parse_fields)

theorem parse_well_formed_witness:
  "CHR ''/'' \<notin> set ''2024-01-01T00:00:00+01:00'' \<and> CHR ''/'' \<notin> set ''2024-01-03T00:00:00+01:00'' \<and>
   CHR ''/'' \<notin> set ''P1DT6H'' \<and>
   parse ''2024-01-01T00:00:00+01:00/2024-01-03T00:00:00+01:00/P1DT6H'' =
     Inr (''2024-01-01T00:00:00+01:00'', ''2024-01-03T00:00:00+01:00'', ''P1DT6H'')"
  using parse_well_formed
    [of "''2024-01-01T00:00:00+01:00''" "''2024-01-03T00:00:00+01:00''" "''P1DT6H''"]
  by simp

subsection \<open>Malformed descriptors\<close>

text \<open>
  C2. For every string whose number of \<^verbatim>\<open>/\<close> characters is not two, parse fails: the
  unpacking raises \<^verbatim>\<open>ValueError\<close> (the MalformedDescriptor condition), whether fields are
  missing or in excess.
\<close>

theorem parse_malformed:
  "count_list s CHR ''/'' \<noteq> 2 \<Longrightarrow> parse s = Inl ValueError"
  by (rule parse_count_neq)

theorem parse_malformed_witness:
  "count_list ''2022-06-19T12:00:00Z/PT12H'' CHR ''/'' \<noteq> 2 \<and>
   parse ''2022-06-19T12:00:00Z/PT12H'' = Inl ValueError \<and>
   count_list [] CHR ''/'' \<noteq> 2 \<and> parse [] = Inl ValueError"
  using parse_malformed [of "''2022-06-19T12:00:00Z/PT12H''"] parse_malformed [of "[]"]
  by simp

text \<open>
  C3. When parse fails on the descriptor, the statement produces no triple and stores
  none of its three targets: it raises, and the namespace is the one it started from.
\<close>

theorem assign_range_error_atomic:
  assumes "dims name = Some d" and "values' d = v # rest" and "parse v = Inl e"
  shows "dimension_range dims name = Inl e \<and>
         assign_range targets name dims ns = (Some e, ns)"
proof -
  from assms have "dimension_range dims name = Inl e"
    by (simp add: dimension_range_Cons)
  then show ?thesis
    by (simp add: assign_range_Inl)
qed

theorem assign_range_error_atomic_witness:
  "time_cell
     [''time'' \<mapsto> \<lparr>units = ''ISO8601'', default_value = ''2022-06-21T12:00:00Z'',
        multipleValues = None, nearestValue = Some ''0'',
        values' = [''2022-06-21T01:00:00Z/2022-06-27T00:00:00Z'']\<rparr>]
     [''first_datetime'' \<mapsto> ''2022-06-20T01:00:00Z''] =
   (Some ValueError, [''first_datetime'' \<mapsto> ''2022-06-20T01:00:00Z''])"
proof -
  let ?d = "\<lparr>units = ''ISO8601'', default_value = ''2022-06-21T12:00:00Z'',
        multipleValues = None, nearestValue = Some ''0'',
        values' = [''2022-06-21T01:00:00Z/2022-06-27T00:00:00Z'']\<rparr>"
  have "parse ''2022-06-21T01:00:00Z/2022-06-27T00:00:00Z'' = Inl ValueError"
    by code_simp
  then show ?thesis
    using assign_range_error_atomic
      [where dims = "[''time'' \<mapsto> ?d]" and name = "''time''" and d = ?d
         and v = "''2022-06-21T01:00:00Z/2022-06-27T00:00:00Z''" and rest = "[]"
         and e = ValueError
         and targets = "(''first_datetime'', ''last_datetime'', ''datetime_interval'')"
         and ns = "[''first_datetime'' \<mapsto> ''2022-06-20T01:00:00Z'']"]
    by (simp add: time_cell_def)
qed

subsection \<open>Only the first entry of a dimension is read\<close>

text \<open>
  C4. For a dimension whose \<^verbatim>\<open>values\<close> list has at least one entry, the resolved range is
  the parse of entry 0: the entries behind it have no influence on the result.
\<close>

theorem dimension_range_first_entry:
  "dims name = Some d \<Longrightarrow> values' d = v # rest \<Longrightarrow> dimension_range dims name = parse v"
  by (rule dimension_range_Cons)

theorem dimension_range_first_entry_witness:
  "dimension_range
     [''time'' \<mapsto> \<lparr>units = ''ISO8601'', default_value = ''2022-06-21T12:00:00Z'',
        multipleValues = None, nearestValue = Some ''0'',
        values' = [''2022-06-21T01:00:00Z/2022-06-27T00:00:00Z/PT1H'',
                   ''2022-07-01T00:00:00Z/2022-07-02T00:00:00Z/PT3H'', ''not a range'']\<rparr>]
     ''time'' =
   parse ''2022-06-21T01:00:00Z/2022-06-27T00:00:00Z/PT1H''"
proof -
  let ?vs = "[''2022-06-21T01:00:00Z/2022-06-27T00:00:00Z/PT1H'',
              ''2022-07-01T00:00:00Z/2022-07-02T00:00:00Z/PT3H'', ''not a range'']"
  let ?d = "\<lparr>units = ''ISO8601'', default_value = ''2022-06-21T12:00:00Z'',
        multipleValues = None, nearestValue = Some ''0'', values' = ?vs\<rparr>"
  show ?thesis
    using dimension_range_first_entry
      [where dims = "[''time'' \<mapsto> ?d]" and name = "''time''" and d = ?d
         and v = "hd ?vs" and rest = "tl ?vs"]
    by simp
qed

subsection \<open>The separator invariant\<close>

text \<open>
  C5. A descriptor yields a range exactly when it contains two \<^verbatim>\<open>/\<close> separators: every
  descriptor that parse accepts has two of them, and a string with any other number of
  separators is never accepted.
\<close>

theorem parse_succeeds_iff_two_separators:
  "(\<exists>t. parse s = Inr t) \<longleftrightarrow> count_list s CHR ''/'' = 2"
proof
  assume ok: "\<exists>t. parse s = Inr t"
  show "count_list s CHR ''/'' = 2"
  proof (rule ccontr)
    assume "count_list s CHR ''/'' \<noteq> 2"
    then have "parse s = Inl ValueError"
      by (rule parse_count_neq)
    with ok show False
      by simp
  qed
next
  assume "count_list s CHR ''/'' = 2"
  then show "\<exists>t. parse s = Inr t"
    by (rule parse_count_eq)
qed

theorem parse_succeeds_iff_two_separators_witness:
  "(\<exists>t. parse ''2023-03-01T00:00:00Z/2023-03-02T00:00:00Z/PT6H'' = Inr t) \<and>
   count_list ''2023-03-01T00:00:00Z/2023-03-02T00:00:00Z/PT6H'' CHR ''/'' = 2 \<and>
   (\<nexists>t. parse ''2023-03-01T00:00:00Z/PT6H'' = Inr t) \<and>
   count_list ''2023-03-01T00:00:00Z/PT6H'' CHR ''/'' = 1"
  using parse_succeeds_iff_two_separators [of "''2023-03-01T00:00:00Z/2023-03-02T00:00:00Z/PT6H''"]
    parse_succeeds_iff_two_separators [of "''2023-03-01T00:00:00Z/PT6H''"]
  by simp

subsection \<open>The scenarios of the specification\<close>

text \<open>
  C7. On the two descriptors that the service published for the demo layer, parse returns
  the listed triples.
\<close>

theorem parse_demo_descriptors:
  "parse ''2022-06-19T12:00:00Z/2022-06-21T00:00:00Z/PT12H'' =
     Inr (''2022-06-19T12:00:00Z'', ''2022-06-21T00:00:00Z'', ''PT12H'') \<and>
   parse ''2022-06-21T01:00:00Z/2022-06-27T00:00:00Z/PT1H'' =
     Inr (''2022-06-21T01:00:00Z'', ''2022-06-27T00:00:00Z'', ''PT1H'')"
  by code_simp

text \<open>
  C8. The inputs \<^verbatim>\<open>onlyonefield\<close> (no separator) and \<^verbatim>\<open>a/b/c/d\<close> (three separators)
  both fail with \<^verbatim>\<open>ValueError\<close>; the second is not returned as a merged triple.
\<close>

theorem parse_rejects_scenarios:
  "parse ''onlyonefield'' = Inl ValueError \<and>
   parse ''a/b/c/d'' = Inl ValueError \<and>
   parse ''a/b/c/d'' \<noteq> Inr (''a'', ''b'', ''c/d'')"
  by code_simp

subsection \<open>Reconstruction\<close>

text \<open>
  C9. Whenever parse succeeds with \<open>(start, end, step)\<close>, joining the three fields with
  \<^verbatim>\<open>/\<close> gives back the input string.
\<close>

theorem parse_reconstruct:
  "parse s = Inr (start, end', step) \<Longrightarrow> start @ ''/'' @ end' @ ''/'' @ step = s"
  using parse_InrD(1) [of s start end' step] by simp

theorem parse_reconstruct_witness:
  "parse ''2021-12-31T18:00:00Z/2022-01-02T18:00:00Z/PT30M'' =
     Inr (''2021-12-31T18:00:00Z'', ''2022-01-02T18:00:00Z'', ''PT30M'') \<and>
   ''2021-12-31T18:00:00Z'' @ ''/'' @ ''2022-01-02T18:00:00Z'' @ ''/'' @ ''PT30M'' =
     ''2021-12-31T18:00:00Z/2022-01-02T18:00:00Z/PT30M''"
proof -
  have p: "parse ''2021-12-31T18:00:00Z/2022-01-02T18:00:00Z/PT30M'' =
     Inr (''2021-12-31T18:00:00Z'', ''2022-01-02T18:00:00Z'', ''PT30M'')"
    by code_simp
  from p parse_reconstruct [OF p] show ?thesis
    by (rule conjI)
qed

subsection \<open>No validation of the fields\<close>

text \<open>
  C10. Every string with exactly two \<^verbatim>\<open>/\<close> separators is accepted, whatever its fields
  are, empty fields included: on \<^verbatim>\<open>//\<close> parse returns three empty strings.
\<close>

theorem parse_no_field_validation:
  "(count_list s CHR ''/'' = 2 \<longrightarrow> (\<exists>a b c. parse s = Inr (a, b, c))) \<and>
   parse ''//'' = Inr ([], [], [])"
proof
  show "count_list s CHR ''/'' = 2 \<longrightarrow> (\<exists>a b c. parse s = Inr (a, b, c))"
    using parse_count_eq [of s] by auto
  show "parse ''//'' = Inr ([], [], [])"
    using parse_fields [of "[]" "[]" "[]"] by simp
qed

theorem parse_no_field_validation_witness:
  "count_list ''/not a timestamp/'' CHR ''/'' = 2 \<and>
   (\<exists>a b c. parse ''/not a timestamp/'' = Inr (a, b, c))"
  using parse_no_field_validation [of "''/not a timestamp/''"]
  by simp

end
